theory Spec2Isabelle
  imports Main
begin

section \<open>The insight routes of the Cognitiva API (src/routes/insight.ts)\<close>

text \<open>
  The module has two Express routes behind the \<open>authenticateToken\<close> middleware:
  \<open>GET /aluno/:alunoId\<close> lists the stored insights of a student and
  \<open>POST /aluno/:alunoId\<close> loads the student, checks the caller's school, asks the
  Gemini model for a text through \<open>retryGenerateInsight\<close> and stores it.

  Strings are byte lists holding the UTF-8 encoding of the source's literals (accented
  letters are written as their two bytes). Every effect on a collaborator (Prisma, the
  Gemini client, the timer) is appended to a trace of events, in program order. Writes to
  the console are left out: nothing reads them.
\<close>

subsection \<open>JavaScript values and strings\<close>

text \<open>
  The decoded token and a caught error are read through \<open>any\<close>, so the fields read
  from them hold arbitrary JavaScript values. Numbers are integers here.
\<close>

datatype jsval = JUndefined | JNull | JBool bool | JNum int | JStr string

fun truthy :: "jsval \<Rightarrow> bool" where
  "truthy JUndefined = False"
| "truthy JNull = False"
| "truthy (JBool b) = b"
| "truthy (JNum n) = (n \<noteq> 0)"
| "truthy (JStr s) = (s \<noteq> [])"

text \<open>\<open>a || b\<close>: the left operand when it is truthy, else the right one.\<close>

definition js_or :: "jsval \<Rightarrow> jsval \<Rightarrow> jsval" where
  "js_or a b = (if truthy a then a else b)"

text \<open>\<open>s.split(' ')\<close>: the pieces of \<open>s\<close> between single spaces (never empty).\<close>

fun js_split_space :: "string \<Rightarrow> string list" where
  "js_split_space [] = [[]]"
| "js_split_space (c # cs) =
     (if c = CHR '' '' then [] # js_split_space cs
      else (case js_split_space cs of
              [] \<Rightarrow> [[c]]
            | piece # pieces \<Rightarrow> (c # piece) # pieces))"

text \<open>\<open>xs[i]\<close> on an array: \<open>undefined\<close> (here \<open>None\<close>) out of range.\<close>

fun js_index :: "'a list \<Rightarrow> nat \<Rightarrow> 'a option" where
  "js_index [] i = None"
| "js_index (x # xs) 0 = Some x"
| "js_index (x # xs) (Suc i) = js_index xs i"

fun starts_with :: "string \<Rightarrow> string \<Rightarrow> bool" where
  "starts_with s [] = True"
| "starts_with [] (c # cs) = False"
| "starts_with (x # xs) (c # cs) = (x = c \<and> starts_with xs cs)"

text \<open>\<open>s.includes(sub)\<close>: \<open>sub\<close> occurs in \<open>s\<close> as a contiguous block.\<close>

fun js_includes :: "string \<Rightarrow> string \<Rightarrow> bool" where
  "js_includes [] sub = (sub = [])"
| "js_includes (x # xs) sub = (starts_with (x # xs) sub \<or> js_includes xs sub)"

subsection \<open>Data\<close>

text \<open>
  A thrown value: its message, its \<open>status\<close> field and the \<open>status\<close> field of its
  \<open>cause\<close> (\<open>JUndefined\<close> when the error has no cause, as \<open>cause?.status\<close> gives).
\<close>

record js_error =
  err_message :: string
  err_status :: jsval
  err_cause_status :: jsval

text \<open>The token's payload. The source declares id, nome and acesso and reads escolaId untyped.\<close>

record user =
  user_id :: string
  nome :: string
  acesso :: string
  user_escolaId :: jsval

text \<open>The related rows of a student are carried along and never inspected by this module.\<close>

typedecl condicao
typedecl notaBimestral
typedecl avaliacao

record turma =
  turma_Nome :: string

record observacao =
  texto :: string

record aluno =
  aluno_id :: string
  aluno_escolaId :: string
  Nome :: string
  Matricula :: string
  Idade :: int
  aluno_turma :: turma
  aluno_condicao :: "condicao option"
  notasBimestrais :: "notaBimestral list"
  aluno_avaliacoes :: "avaliacao list"
  aluno_observacoes :: "observacao list"

record json_aluno =
  j_Nome :: string
  j_Matricula :: string
  j_Idade :: int
  j_turma :: string
  j_condicao :: "condicao option"

record json_input =
  j_aluno :: json_aluno
  j_notas :: "notaBimestral list"
  j_avaliacoes :: "avaliacao list"
  j_observacoes :: "string list"

record insight =
  insight_id :: string
  insight_alunoId :: string
  jsonInput :: json_input
  textoInsight :: string
  insight_escolaId :: string
  dataGeracao :: int

text \<open>
  The effects: a query for the insights of a student id, a lookup of a student id, a call
  of the model with a prompt, an awaited \<open>delay(ms)\<close>, an insert of an insight for a
  student id, and \<open>prisma.$disconnect()\<close>.
\<close>

datatype event =
    EvFindMany string
  | EvFindUnique string
  | EvGenerate string
  | EvDelay nat
  | EvCreate string
  | EvDisconnect

text \<open>The database rows this module reads and writes, and the effects performed so far.\<close>

record world =
  alunos :: "aluno list"
  insights :: "insight list"
  trace :: "event list"

text \<open>
  The collaborators and the configuration of one request. \<open>generateContent e i p\<close> is
  what the model answers to the \<open>i\<close>-th call (from 0) of the request, made with prompt
  \<open>p\<close>: \<open>Inl\<close> a thrown error, \<open>Inr\<close> the text. \<open>jwt_verify\<close> is
  \<open>jwt.verify\<close> with the configured secret (\<open>None\<close> when it throws).
  \<open>read_failure\<close> and \<open>write_failure\<close> are the errors, if any, with which the
  database rejects a query and an insert. \<open>fresh_id\<close> and \<open>now\<close> are the id and
  the time stamp the database gives a new row. \<open>promptBase\<close> is the fixed instruction
  text of lines 92 to 155 and \<open>JSON_stringify\<close> is \<open>JSON.stringify(_, null, 2)\<close>;
  no property depends on what they contain.
\<close>

record env =
  GEMINI_API_KEY :: "string option"
  jwt_verify :: "string \<Rightarrow> user option"
  generateContent :: "nat \<Rightarrow> string \<Rightarrow> js_error + string"
  promptBase :: string
  JSON_stringify :: "json_input \<Rightarrow> string"
  read_failure :: "js_error option"
  write_failure :: "js_error option"
  fresh_id :: string
  now :: int

record request =
  authorization :: "string option"
  param_alunoId :: string

datatype body =
    ErrorJson string
  | InsightsJson "insight list"
  | CreatedJson string insight

record response =
  res_status :: nat
  res_body :: body

text \<open>\<open>new Error(msg)\<close>: no status, no cause.\<close>

definition new_Error :: "string \<Rightarrow> js_error" where
  "new_Error msg = \<lparr>err_message = msg, err_status = JUndefined, err_cause_status = JUndefined\<rparr>"

subsection \<open>authenticateToken\<close>

definition no_token_response :: response where
  "no_token_response =
     \<lparr>res_status = 401,
      res_body = ErrorJson (''Token de autentica'' @ [CHR 0xC3, CHR 0xA7, CHR 0xC3, CHR 0xA3]
        @ ''o n'' @ [CHR 0xC3, CHR 0xA3] @ ''o fornecido.'')\<rparr>"

definition invalid_token_response :: response where
  "invalid_token_response =
     \<lparr>res_status = 403, res_body = ErrorJson (''Token inv'' @ [CHR 0xC3, CHR 0xA1] @ ''lido.'')\<rparr>"

text \<open>
  \<open>authHeader && authHeader.split(' ')[1]\<close> is the header itself when it is absent or
  empty, else the second piece; \<open>!token\<close> holds for an absent or empty token.
\<close>

definition authenticateToken :: "env \<Rightarrow> request \<Rightarrow> response + user" where
  "authenticateToken e req =
     (let authHeader = authorization req;
          token = (case authHeader of
                     None \<Rightarrow> None
                   | Some h \<Rightarrow> if h = [] then Some h else js_index (js_split_space h) 1)
      in case token of
           None \<Rightarrow> Inl no_token_response
         | Some t \<Rightarrow>
             if t = [] then Inl no_token_response
             else (case jwt_verify e t of
                     Some u \<Rightarrow> Inr u
                   | None \<Rightarrow> Inl invalid_token_response))"

subsection \<open>GET /aluno/:alunoId\<close>

definition missing_id_response :: response where
  "missing_id_response =
     \<lparr>res_status = 400,
      res_body = ErrorJson (''ID do aluno '' @ [CHR 0xC3, CHR 0xA9] @ '' obrigat''
        @ [CHR 0xC3, CHR 0xB3] @ ''rio.'')\<rparr>"

text \<open>
  \<open>findMany\<close> with \<open>orderBy: { dataGeracao: 'desc' }\<close>; the order of rows with equal
  time stamps is the database's choice (here: the later row first).
\<close>

definition findMany :: "world \<Rightarrow> string \<Rightarrow> insight list" where
  "findMany w alunoId =
     rev (sort_key dataGeracao (filter (\<lambda>i. insight_alunoId i = alunoId) (insights w)))"

definition get_handler :: "env \<Rightarrow> request \<Rightarrow> world \<Rightarrow> response \<times> world" where
  "get_handler e req w =
     (let alunoId = param_alunoId req in
      if alunoId = [] then
        (missing_id_response, w)
      else
        let w1 = w\<lparr>trace := trace w @ [EvFindMany alunoId]\<rparr>;
            res = (case read_failure e of
                     None \<Rightarrow> \<lparr>res_status = 200, res_body = InsightsJson (findMany w1 alunoId)\<rparr>
                   | Some err \<Rightarrow>
                       \<lparr>res_status = 500, res_body = ErrorJson ''Erro interno ao buscar insights.''\<rparr>)
        in (res, w1\<lparr>trace := trace w1 @ [EvDisconnect]\<rparr>))"

definition get_route :: "env \<Rightarrow> request \<Rightarrow> world \<Rightarrow> response \<times> world" where
  "get_route e req w =
     (case authenticateToken e req of
        Inl res \<Rightarrow> (res, w)
      | Inr u \<Rightarrow> get_handler e req w)"

subsection \<open>retryGenerateInsight\<close>

definition missing_key_error :: js_error where
  "missing_key_error =
     new_Error (''GEMINI_API_KEY n'' @ [CHR 0xC3, CHR 0xA3] @ ''o est'' @ [CHR 0xC3, CHR 0xA1]
       @ '' definida.'')"

definition persistent_overload_error :: js_error where
  "persistent_overload_error =
     new_Error (''Gemini API falhou ap'' @ [CHR 0xC3, CHR 0xB3] @ ''s m'' @ [CHR 0xC3, CHR 0xBA]
       @ ''ltiplas tentativas (503 Sobrecarga persistente).'')"

text \<open>
  The \<open>for\<close> loop, from the attempt it is about to make. It returns the outcome
  (\<open>Inl\<close> the thrown error) and the events of the remaining attempts; delays are in
  milliseconds.
\<close>

function retry_loop :: "env \<Rightarrow> string \<Rightarrow> nat \<Rightarrow> nat \<Rightarrow> (js_error + string) \<times> event list" where
  "retry_loop e fullPrompt maxRetries attempt =
     (if attempt < maxRetries then
        (case generateContent e attempt fullPrompt of
           Inr text \<Rightarrow> (Inr text, [EvGenerate fullPrompt])
         | Inl error \<Rightarrow>
             (let status = js_or (err_status error) (err_cause_status error) in
              if status \<noteq> JNum 503 then (Inl error, [EvGenerate fullPrompt])
              else
                (let delayTime = 2 ^ attempt * 1000 in
                 case retry_loop e fullPrompt maxRetries (attempt + 1) of
                   (r, evs) \<Rightarrow> (r, EvGenerate fullPrompt # EvDelay delayTime # evs))))
      else (Inl persistent_overload_error, []))"
  by pat_completeness auto
termination
  by (relation "measure (\<lambda>(e, fullPrompt, maxRetries, attempt). maxRetries - attempt)") auto

definition retryGenerateInsight :: "env \<Rightarrow> string \<Rightarrow> nat \<Rightarrow> (js_error + string) \<times> event list" where
  "retryGenerateInsight e fullPrompt maxRetries =
     (if (case GEMINI_API_KEY e of None \<Rightarrow> True | Some k \<Rightarrow> k = []) then (Inl missing_key_error, [])
      else retry_loop e fullPrompt maxRetries 0)"

subsection \<open>POST /aluno/:alunoId\<close>

definition findUnique :: "world \<Rightarrow> string \<Rightarrow> aluno option" where
  "findUnique w alunoId = find (\<lambda>a. aluno_id a = alunoId) (alunos w)"

text \<open>The guard of line 177: the request is refused when it holds.\<close>

definition forbidden :: "user \<Rightarrow> aluno \<Rightarrow> bool" where
  "forbidden u a = (user_escolaId u \<noteq> JStr (aluno_escolaId a) \<and> acesso u \<noteq> ''Administrador'')"

definition build_jsonInput :: "aluno \<Rightarrow> json_input" where
  "build_jsonInput a =
     \<lparr>j_aluno = \<lparr>j_Nome = Nome a, j_Matricula = Matricula a, j_Idade = Idade a,
                 j_turma = turma_Nome (aluno_turma a), j_condicao = aluno_condicao a\<rparr>,
      j_notas = notasBimestrais a,
      j_avaliacoes = aluno_avaliacoes a,
      j_observacoes = map texto (aluno_observacoes a)\<rparr>"

definition build_fullPrompt :: "env \<Rightarrow> json_input \<Rightarrow> string" where
  "build_fullPrompt e ji =
     promptBase e @ [CHR 0x0A, CHR 0x0A] @ ''JSON do Aluno:'' @ [CHR 0x0A] @ JSON_stringify e ji"

definition not_found_response :: response where
  "not_found_response =
     \<lparr>res_status = 404,
      res_body = ErrorJson (''Aluno n'' @ [CHR 0xC3, CHR 0xA3] @ ''o encontrado.'')\<rparr>"

definition forbidden_response :: response where
  "forbidden_response =
     \<lparr>res_status = 403,
      res_body = ErrorJson (''Acesso negado: Aluno n'' @ [CHR 0xC3, CHR 0xA3] @ ''o pertence ''
        @ [CHR 0xC3, CHR 0xA0] @ '' sua escola.'')\<rparr>"

text \<open>The row \<open>prisma.insight.create\<close> stores for a student and a generated text.\<close>

definition new_insight :: "env \<Rightarrow> aluno \<Rightarrow> json_input \<Rightarrow> string \<Rightarrow> insight" where
  "new_insight e a ji responseText =
     \<lparr>insight_id = fresh_id e,
      insight_alunoId = aluno_id a,
      jsonInput = ji,
      textoInsight = responseText,
      insight_escolaId = aluno_escolaId a,
      dataGeracao = now e\<rparr>"

definition created_response :: "insight \<Rightarrow> response" where
  "created_response novoInsight =
     \<lparr>res_status = 200, res_body = CreatedJson ''Insight gerado com sucesso!'' novoInsight\<rparr>"

text \<open>The body of the \<open>try\<close> block: \<open>Inl\<close> a thrown error, \<open>Inr\<close> the response sent.\<close>

definition post_try :: "env \<Rightarrow> string \<Rightarrow> user \<Rightarrow> world \<Rightarrow> (js_error + response) \<times> world" where
  "post_try e alunoId u w =
     (let w1 = w\<lparr>trace := trace w @ [EvFindUnique alunoId]\<rparr> in
      case read_failure e of
        Some err \<Rightarrow> (Inl err, w1)
      | None \<Rightarrow>
          (case findUnique w1 alunoId of
             None \<Rightarrow>
               (Inr not_found_response, w1)
           | Some a \<Rightarrow>
               if forbidden u a then
                 (Inr forbidden_response, w1)
               else
                 (let ji = build_jsonInput a;
                      fullPrompt = build_fullPrompt e ji
                  in case retryGenerateInsight e fullPrompt 3 of
                       (r, evs) \<Rightarrow>
                         (let w2 = w1\<lparr>trace := trace w1 @ evs\<rparr> in
                          case r of
                            Inl err \<Rightarrow> (Inl err, w2)
                          | Inr responseText \<Rightarrow>
                              (let w3 = w2\<lparr>trace := trace w2 @ [EvCreate (aluno_id a)]\<rparr> in
                               case write_failure e of
                                 Some err \<Rightarrow> (Inl err, w3)
                               | None \<Rightarrow>
                                   (let novoInsight = new_insight e a ji responseText
                                    in (Inr (created_response novoInsight),
                                        w3\<lparr>insights := insights w3 @ [novoInsight]\<rparr>)))))))"

text \<open>The test of line 212 on the caught error.\<close>

definition isRetryFailure :: "js_error \<Rightarrow> bool" where
  "isRetryFailure err = js_includes (err_message err) ''Sobrecarga persistente''"

text \<open>The \<open>catch\<close> block.\<close>

definition post_catch :: "js_error \<Rightarrow> response" where
  "post_catch err =
     \<lparr>res_status = (if isRetryFailure err then 503 else 500),
      res_body = ErrorJson
        (if isRetryFailure err then
           ''Servi'' @ [CHR 0xC3, CHR 0xA7] @ ''o de IA Indispon'' @ [CHR 0xC3, CHR 0xAD]
             @ ''vel (Sobrecarga). Tente novamente.''
         else ''Erro interno ao gerar insight.'')\<rparr>"

definition post_handler :: "env \<Rightarrow> request \<Rightarrow> user \<Rightarrow> world \<Rightarrow> response \<times> world" where
  "post_handler e req u w =
     (let alunoId = param_alunoId req in
      if alunoId = [] then
        (missing_id_response, w)
      else
        (case post_try e alunoId u w of
           (r, w1) \<Rightarrow>
             (let res = (case r of Inl err \<Rightarrow> post_catch err | Inr sent \<Rightarrow> sent)
              in (res, w1\<lparr>trace := trace w1 @ [EvDisconnect]\<rparr>))))"

definition post_route :: "env \<Rightarrow> request \<Rightarrow> world \<Rightarrow> response \<times> world" where
  "post_route e req w =
     (case authenticateToken e req of
        Inl res \<Rightarrow> (res, w)
      | Inr u \<Rightarrow> post_handler e req u w)"

subsection \<open>Vocabulary of the properties\<close>

text \<open>The test of lines 69 to 72: the caught error carries the overload status 503.\<close>

definition overload_signal :: "js_error \<Rightarrow> bool" where
  "overload_signal error = (js_or (err_status error) (err_cause_status error) = JNum 503)"

text \<open>The \<open>i\<close>-th call with prompt \<open>p\<close> fails with the overload signal.\<close>

definition fails_overloaded :: "env \<Rightarrow> nat \<Rightarrow> string \<Rightarrow> bool" where
  "fails_overloaded e i p =
     (case generateContent e i p of Inl error \<Rightarrow> overload_signal error | Inr text \<Rightarrow> False)"

definition api_key_set :: "env \<Rightarrow> bool" where
  "api_key_set e = (case GEMINI_API_KEY e of None \<Rightarrow> False | Some k \<Rightarrow> k \<noteq> [])"

text \<open>
  The events of \<open>n\<close> overloaded attempts from attempt \<open>a\<close> on: each call is followed
  by its wait of \<open>2 ^ attempt\<close> seconds.
\<close>

definition backoff_events :: "string \<Rightarrow> nat \<Rightarrow> nat \<Rightarrow> event list" where
  "backoff_events p a n = concat (map (\<lambda>i. [EvGenerate p, EvDelay (2 ^ i * 1000)]) [a..<a + n])"

fun is_generate :: "event \<Rightarrow> bool" where
  "is_generate (EvGenerate p) = True"
| "is_generate ev = False"

text \<open>How often the model was called, the waits in order, and the inserts attempted.\<close>

definition gen_calls :: "event list \<Rightarrow> nat" where
  "gen_calls evs = length (filter is_generate evs)"

fun delays_of :: "event list \<Rightarrow> nat list" where
  "delays_of [] = []"
| "delays_of (EvDelay ms # evs) = ms # delays_of evs"
| "delays_of (ev # evs) = delays_of evs"

fun is_create :: "event \<Rightarrow> bool" where
  "is_create (EvCreate a) = True"
| "is_create ev = False"

text \<open>A request that passes the middleware and the id check and whose student is loaded.\<close>

definition loads_aluno :: "env \<Rightarrow> request \<Rightarrow> world \<Rightarrow> user \<Rightarrow> aluno \<Rightarrow> bool" where
  "loads_aluno e req w u a =
     (authenticateToken e req = Inr u \<and> param_alunoId req \<noteq> [] \<and> read_failure e = None
      \<and> findUnique w (param_alunoId req) = Some a)"

definition prompt_for :: "env \<Rightarrow> aluno \<Rightarrow> string" where
  "prompt_for e a = build_fullPrompt e (build_jsonInput a)"

subsection \<open>Example data\<close>

definition err_503 :: js_error where
  "err_503 = \<lparr>err_message = ''The model is overloaded.'', err_status = JNum 503,
              err_cause_status = JUndefined\<rparr>"

definition err_400 :: js_error where
  "err_400 = \<lparr>err_message = ''Bad request'', err_status = JNum 400, err_cause_status = JUndefined\<rparr>"

definition err_marked :: js_error where
  "err_marked = \<lparr>err_message = ''upstream said: Sobrecarga persistente'', err_status = JNum 400,
                 err_cause_status = JUndefined\<rparr>"

definition overloaded_until :: "nat \<Rightarrow> nat \<Rightarrow> string \<Rightarrow> js_error + string" where
  "overloaded_until k i p = (if i < k then Inl err_503 else Inr ''texto'')"

definition always_failing :: "js_error \<Rightarrow> nat \<Rightarrow> string \<Rightarrow> js_error + string" where
  "always_failing err i p = Inl err"

definition ex_user :: "string \<Rightarrow> jsval \<Rightarrow> user" where
  "ex_user role school = \<lparr>user_id = ''u1'', nome = ''Ana'', acesso = role, user_escolaId = school\<rparr>"

definition ex_aluno :: aluno where
  "ex_aluno =
     \<lparr>aluno_id = ''a1'', aluno_escolaId = ''s1'', Nome = ''Rui'', Matricula = ''m1'', Idade = 12,
      aluno_turma = \<lparr>turma_Nome = ''7A''\<rparr>, aluno_condicao = None, notasBimestrais = [],
      aluno_avaliacoes = [], aluno_observacoes = [\<lparr>texto = ''atento''\<rparr>]\<rparr>"

definition ex_env :: "(nat \<Rightarrow> string \<Rightarrow> js_error + string) \<Rightarrow> user \<Rightarrow> env" where
  "ex_env service u =
     \<lparr>GEMINI_API_KEY = Some ''key'',
      jwt_verify = (\<lambda>t. if t = ''tok'' then Some u else None),
      generateContent = service,
      promptBase = ''Analise:'',
      JSON_stringify = (\<lambda>ji. j_Nome (j_aluno ji)),
      read_failure = None,
      write_failure = None,
      fresh_id = ''i1'',
      now = 100\<rparr>"

definition ex_req :: request where
  "ex_req = \<lparr>authorization = Some ''Bearer tok'', param_alunoId = ''a1''\<rparr>"

definition ex_req_no_token :: request where
  "ex_req_no_token = \<lparr>authorization = None, param_alunoId = ''a1''\<rparr>"

definition ex_world :: world where
  "ex_world = \<lparr>alunos = [ex_aluno], insights = [], trace = []\<rparr>"

section \<open>Properties\<close>

subsection \<open>The retry loop\<close>

declare retry_loop.simps [simp del]

lemma gen_calls_append: "gen_calls (xs @ ys) = gen_calls xs + gen_calls ys"
  by (simp add: gen_calls_def)

lemma gen_calls_Nil: "gen_calls [] = 0"
  by (simp add: gen_calls_def)

lemma gen_calls_Cons: "gen_calls (ev # evs) = (if is_generate ev then 1 else 0) + gen_calls evs"
  by (simp add: gen_calls_def)

lemma delays_of_append: "delays_of (xs @ ys) = delays_of xs @ delays_of ys"
  by (induction xs rule: delays_of.induct) simp_all

lemma backoff_events_0: "backoff_events p a 0 = []"
  by (simp add: backoff_events_def)

lemma backoff_events_Suc:
  "backoff_events p a (Suc n) = EvGenerate p # EvDelay (2 ^ a * 1000) # backoff_events p (Suc a) n"
  by (simp add: backoff_events_def upt_rec [of a])

lemma backoff_events_snoc:
  "backoff_events p a (Suc n) = backoff_events p a n @ [EvGenerate p, EvDelay (2 ^ (a + n) * 1000)]"
  by (simp add: backoff_events_def)

lemma gen_calls_backoff: "gen_calls (backoff_events p a n) = n"
  by (induction n arbitrary: a) (simp_all add: backoff_events_0 backoff_events_Suc gen_calls_def)

lemma delays_of_backoff: "delays_of (backoff_events p a n) = map (\<lambda>i. 2 ^ i * 1000) [a..<a + n]"
proof (induction n arbitrary: a)
  case 0
  show ?case by (simp add: backoff_events_0)
next
  case (Suc n)
  show ?case by (simp add: backoff_events_Suc Suc upt_rec [of a])
qed

lemma length_backoff: "length (backoff_events p a n) = 2 * n"
  by (induction n arbitrary: a) (simp_all add: backoff_events_0 backoff_events_Suc)

lemma retry_loop_overloaded_step:
  assumes "attempt < maxRetries" "fails_overloaded e attempt p"
  shows "retry_loop e p maxRetries attempt =
           (fst (retry_loop e p maxRetries (Suc attempt)),
            EvGenerate p # EvDelay (2 ^ attempt * 1000) # snd (retry_loop e p maxRetries (Suc attempt)))"
  using assms
  by (subst retry_loop.simps)
     (auto simp: fails_overloaded_def overload_signal_def Let_def split: sum.splits prod.splits)

lemma retry_loop_overloaded_run:
  assumes "\<forall>i. a \<le> i \<and> i < a + n \<longrightarrow> fails_overloaded e i p" "a + n \<le> maxRetries"
  shows "retry_loop e p maxRetries a =
           (fst (retry_loop e p maxRetries (a + n)),
            backoff_events p a n @ snd (retry_loop e p maxRetries (a + n)))"
  using assms
proof (induction n arbitrary: a)
  case 0
  show ?case by (simp add: backoff_events_0)
next
  case (Suc n)
  have step: "retry_loop e p maxRetries a =
           (fst (retry_loop e p maxRetries (Suc a)),
            EvGenerate p # EvDelay (2 ^ a * 1000) # snd (retry_loop e p maxRetries (Suc a)))"
    using Suc.prems by (intro retry_loop_overloaded_step) auto
  have rest: "retry_loop e p maxRetries (Suc a) =
           (fst (retry_loop e p maxRetries (Suc a + n)),
            backoff_events p (Suc a) n @ snd (retry_loop e p maxRetries (Suc a + n)))"
    using Suc.prems by (intro Suc.IH) auto
  have f: "fst (retry_loop e p maxRetries (Suc a)) = fst (retry_loop e p maxRetries (a + Suc n))"
    by (subst rest) simp
  have s: "snd (retry_loop e p maxRetries (Suc a)) =
             backoff_events p (Suc a) n @ snd (retry_loop e p maxRetries (a + Suc n))"
    by (subst rest) simp
  show ?case
    unfolding step f s by (simp add: backoff_events_Suc)
qed

lemma retry_loop_success:
  assumes "attempt < maxRetries" "generateContent e attempt p = Inr text"
  shows "retry_loop e p maxRetries attempt = (Inr text, [EvGenerate p])"
  using assms by (subst retry_loop.simps) simp

lemma retry_loop_fatal:
  assumes "attempt < maxRetries" "generateContent e attempt p = Inl err" "\<not> overload_signal err"
  shows "retry_loop e p maxRetries attempt = (Inl err, [EvGenerate p])"
  using assms by (subst retry_loop.simps) (simp add: overload_signal_def Let_def)

lemma retry_loop_exhausted:
  "retry_loop e p maxRetries maxRetries = (Inl persistent_overload_error, [])"
  by (subst retry_loop.simps) simp

lemma retry_with_key:
  "api_key_set e \<Longrightarrow> retryGenerateInsight e p maxRetries = retry_loop e p maxRetries 0"
  by (auto simp: api_key_set_def retryGenerateInsight_def split: option.splits)

lemma isRetryFailure_persistent: "isRetryFailure persistent_overload_error"
  by (simp add: isRetryFailure_def persistent_overload_error_def new_Error_def)

subsection \<open>The stages of the POST route\<close>

lemma findUnique_trace [simp]: "findUnique (w\<lparr>trace := t\<rparr>) x = findUnique w x"
  by (simp add: findUnique_def)

lemma post_route_forbidden:
  assumes "loads_aluno e req w u a" "forbidden u a"
  shows "post_route e req w =
           (forbidden_response,
            w\<lparr>trace := trace w @ [EvFindUnique (param_alunoId req), EvDisconnect]\<rparr>)"
  using assms
  by (simp add: loads_aluno_def post_route_def post_handler_def post_try_def Let_def)

lemma post_route_generation_failed:
  assumes "loads_aluno e req w u a" "\<not> forbidden u a"
      and "retryGenerateInsight e (prompt_for e a) 3 = (Inl err, evs)"
  shows "post_route e req w =
           (post_catch err,
            w\<lparr>trace := trace w @ EvFindUnique (param_alunoId req) # evs @ [EvDisconnect]\<rparr>)"
  using assms
  by (simp add: loads_aluno_def post_route_def post_handler_def post_try_def Let_def prompt_for_def)

lemma post_route_generated:
  assumes "loads_aluno e req w u a" "\<not> forbidden u a"
      and "retryGenerateInsight e (prompt_for e a) 3 = (Inr text, evs)"
  shows "post_route e req w =
           (case write_failure e of
              Some err \<Rightarrow>
                (post_catch err,
                 w\<lparr>trace := trace w @ EvFindUnique (param_alunoId req) # evs
                              @ [EvCreate (aluno_id a), EvDisconnect]\<rparr>)
            | None \<Rightarrow>
                (created_response (new_insight e a (build_jsonInput a) text),
                 w\<lparr>trace := trace w @ EvFindUnique (param_alunoId req) # evs
                              @ [EvCreate (aluno_id a), EvDisconnect],
                   insights := insights w @ [new_insight e a (build_jsonInput a) text]\<rparr>))"
  using assms
  by (simp add: loads_aluno_def post_route_def post_handler_def post_try_def Let_def prompt_for_def
           split: option.splits)

subsection \<open>Facts about the example data and the events of the wrapper\<close>

lemma ex_key: "api_key_set (ex_env service u)"
  by (simp add: api_key_set_def ex_env_def)

lemma ex_auth: "authenticateToken (ex_env service u) ex_req = Inr u"
  by (simp add: authenticateToken_def ex_env_def ex_req_def)

lemma ex_loads: "loads_aluno (ex_env service u) ex_req ex_world u ex_aluno"
  by (simp add: loads_aluno_def ex_auth)
     (simp add: ex_env_def ex_req_def ex_world_def findUnique_def ex_aluno_def)

lemma ex_always_overloaded: "fails_overloaded (ex_env (always_failing err_503) u) i p"
  by (simp add: fails_overloaded_def ex_env_def always_failing_def overload_signal_def
                err_503_def js_or_def)

lemma ex_same_school: "\<not> forbidden (ex_user role (JStr ''s1'')) ex_aluno"
  by (simp add: forbidden_def ex_user_def ex_aluno_def)

lemma retry_loop_unfold:
  "retry_loop e p m a =
     (if a < m then
        (case generateContent e a p of
           Inr text \<Rightarrow> (Inr text, [EvGenerate p])
         | Inl err \<Rightarrow>
             if overload_signal err then
               (fst (retry_loop e p m (Suc a)),
                EvGenerate p # EvDelay (2 ^ a * 1000) # snd (retry_loop e p m (Suc a)))
             else (Inl err, [EvGenerate p]))
      else (Inl persistent_overload_error, []))"
  by (subst retry_loop.simps)
     (simp add: overload_signal_def Let_def split: sum.splits prod.splits)

lemma retry_loop_events:
  "set (snd (retry_loop e p m a)) \<subseteq> insert (EvGenerate p) (range EvDelay)"
proof (induction "m - a" arbitrary: a)
  case 0
  then show ?case by (subst retry_loop_unfold) simp
next
  case (Suc n)
  then have "set (snd (retry_loop e p m (Suc a))) \<subseteq> insert (EvGenerate p) (range EvDelay)"
    by simp
  then show ?case
    by (subst retry_loop_unfold) (auto split: sum.splits)
qed

lemma retry_events:
  "set (snd (retryGenerateInsight e p m)) \<subseteq> insert (EvGenerate p) (range EvDelay)"
  using retry_loop_events [of e p m 0] by (simp add: retryGenerateInsight_def)

lemma retry_no_disconnect: "EvDisconnect \<notin> set (snd (retryGenerateInsight e p m))"
  using retry_events [of e p m] by auto

lemma retry_no_create: "filter is_create (snd (retryGenerateInsight e p m)) = []"
proof -
  have "\<not> is_create ev" if "ev \<in> set (snd (retryGenerateInsight e p m))" for ev
    using that retry_events [of e p m] by auto
  then show ?thesis by (simp add: filter_empty_conv)
qed

lemma ex_other_school: "user_escolaId (ex_user role (JStr ''s2'')) \<noteq> JStr (aluno_escolaId ex_aluno)"
  by (simp add: ex_user_def ex_aluno_def)

lemma ex_world_empty: "trace ex_world = []" "insights ex_world = []"
  by (simp_all add: ex_world_def)

lemma ex_generated:
  "retryGenerateInsight (ex_env (overloaded_until 0) u) p 3 = (Inr ''texto'', [EvGenerate p])"
proof -
  have "retry_loop (ex_env (overloaded_until 0) u) p 3 0 = (Inr ''texto'', [EvGenerate p])"
    by (intro retry_loop_success) (simp_all add: ex_env_def overloaded_until_def)
  then show ?thesis
    by (simp add: retry_with_key [OF ex_key])
qed

lemma ex_no_write_failure: "write_failure (ex_env service u) = None"
  by (simp add: ex_env_def)

subsection \<open>What a request changes in the database\<close>

lemma post_route_insights:
  "insights (snd (post_route e req w)) = insights w
   \<or> (\<exists>u a reply. loads_aluno e req w u a \<and> \<not> forbidden u a
         \<and> fst (retryGenerateInsight e (prompt_for e a) 3) = Inr reply
         \<and> insights (snd (post_route e req w))
             = insights w @ [new_insight e a (build_jsonInput a) reply])"
  by (auto simp: post_route_def post_handler_def post_try_def loads_aluno_def prompt_for_def Let_def
           split: sum.splits option.splits prod.splits)

lemma post_route_alunos: "alunos (snd (post_route e req w)) = alunos w"
  by (auto simp: post_route_def post_handler_def post_try_def Let_def
           split: sum.splits option.splits prod.splits)

lemma get_route_rows:
  "insights (snd (get_route e req w)) = insights w \<and> alunos (snd (get_route e req w)) = alunos w"
  by (auto simp: get_route_def get_handler_def Let_def split: sum.splits option.splits)

subsection \<open>Retry and backoff\<close>

text \<open>
  Claim C1. When the model fails with the overload status 503 on the first \<open>k\<close> calls
  and answers the next one, with \<open>k\<close> below the number of attempts allowed (3 in the
  route) and the API key configured, \<open>retryGenerateInsight\<close> returns the text of the
  answer, calls the model exactly \<open>k + 1\<close> times, and between call \<open>i\<close> and the next
  one waits \<open>2 ^ i\<close> seconds (1000, 2000, 4000, ... milliseconds).
\<close>

theorem retry_returns_text_after_k_overloads:
  assumes "api_key_set e"
      and "\<forall>i<k. fails_overloaded e i p"
      and "generateContent e k p = Inr text"
      and "k < maxRetries"
  shows "retryGenerateInsight e p maxRetries = (Inr text, backoff_events p 0 k @ [EvGenerate p])
       \<and> gen_calls (snd (retryGenerateInsight e p maxRetries)) = k + 1
       \<and> delays_of (snd (retryGenerateInsight e p maxRetries)) = map (\<lambda>i. 2 ^ i * 1000) [0..<k]"
proof -
  have run: "retry_loop e p maxRetries 0 =
               (fst (retry_loop e p maxRetries (0 + k)),
                backoff_events p 0 k @ snd (retry_loop e p maxRetries (0 + k)))"
    using assms(2,4) by (intro retry_loop_overloaded_run) auto
  have last: "retry_loop e p maxRetries k = (Inr text, [EvGenerate p])"
    using assms(3,4) by (rule retry_loop_success [rotated])
  have res: "retryGenerateInsight e p maxRetries = (Inr text, backoff_events p 0 k @ [EvGenerate p])"
    using run last by (simp add: retry_with_key [OF assms(1)])
  show ?thesis
    by (simp add: res gen_calls_append gen_calls_backoff delays_of_append delays_of_backoff
                  gen_calls_Nil gen_calls_Cons)
qed

theorem retry_returns_text_after_k_overloads_witness:
  "api_key_set (ex_env (overloaded_until 2) (ex_user ''Professor'' (JStr ''s1'')))
   \<and> fails_overloaded (ex_env (overloaded_until 2) (ex_user ''Professor'' (JStr ''s1''))) 0 ''p''
   \<and> fails_overloaded (ex_env (overloaded_until 2) (ex_user ''Professor'' (JStr ''s1''))) 1 ''p''
   \<and> retryGenerateInsight (ex_env (overloaded_until 2) (ex_user ''Professor'' (JStr ''s1''))) ''p'' 3
       = (Inr ''texto'',
          [EvGenerate ''p'', EvDelay 1000, EvGenerate ''p'', EvDelay 2000, EvGenerate ''p''])"
proof -
  let ?e = "ex_env (overloaded_until 2) (ex_user ''Professor'' (JStr ''s1''))"
  have key: "api_key_set ?e"
    by (simp add: api_key_set_def ex_env_def)
  have f: "\<And>i. i < 2 \<Longrightarrow> fails_overloaded ?e i ''p''"
    by (simp add: fails_overloaded_def ex_env_def overloaded_until_def overload_signal_def
                  err_503_def js_or_def)
  have ok: "generateContent ?e 2 ''p'' = Inr ''texto''"
    by (simp add: ex_env_def overloaded_until_def)
  have ev: "backoff_events ''p'' 0 2 = [EvGenerate ''p'', EvDelay 1000, EvGenerate ''p'', EvDelay 2000]"
    by (simp add: backoff_events_def upt_rec [of 0] upt_rec [of 1] numeral_2_eq_2)
  from retry_returns_text_after_k_overloads [of ?e 2 "''p''" "''texto''" 3] key f ok ev
  show ?thesis by simp
qed

text \<open>
  Claim C2. When every attempt fails with the overload status 503 (and the API key is
  configured), \<open>retryGenerateInsight\<close> calls the model exactly \<open>maxRetries\<close> times
  and then throws the persistent-overload error. That error is the one the \<open>catch\<close>
  block recognises (\<open>isRetryFailure\<close>) and answers with status 503; a POST request that
  reaches the model (3 attempts) therefore ends with 503, three calls and no new insight.
\<close>

theorem persistent_overload_gives_503:
  assumes "api_key_set e"
      and "\<forall>i<maxRetries. fails_overloaded e i p"
  shows "retryGenerateInsight e p maxRetries = (Inl persistent_overload_error, backoff_events p 0 maxRetries)
       \<and> gen_calls (snd (retryGenerateInsight e p maxRetries)) = maxRetries
       \<and> isRetryFailure persistent_overload_error
       \<and> res_status (post_catch persistent_overload_error) = 503
       \<and> (maxRetries = 3 \<and> loads_aluno e req w u a \<and> \<not> forbidden u a \<and> p = prompt_for e a
            \<longrightarrow> res_status (fst (post_route e req w)) = 503
              \<and> gen_calls (trace (snd (post_route e req w))) = gen_calls (trace w) + 3
              \<and> insights (snd (post_route e req w)) = insights w)"
proof -
  have run: "retry_loop e p maxRetries 0 =
               (fst (retry_loop e p maxRetries (0 + maxRetries)),
                backoff_events p 0 maxRetries @ snd (retry_loop e p maxRetries (0 + maxRetries)))"
    using assms(2) by (intro retry_loop_overloaded_run) auto
  have res: "retryGenerateInsight e p maxRetries = (Inl persistent_overload_error, backoff_events p 0 maxRetries)"
    using run by (simp add: retry_with_key [OF assms(1)] retry_loop_exhausted)
  have status: "res_status (post_catch persistent_overload_error) = 503"
    by (simp add: post_catch_def isRetryFailure_persistent)
  have route: "res_status (fst (post_route e req w)) = 503
              \<and> gen_calls (trace (snd (post_route e req w))) = gen_calls (trace w) + 3
              \<and> insights (snd (post_route e req w)) = insights w"
    if "maxRetries = 3" "loads_aluno e req w u a" "\<not> forbidden u a" "p = prompt_for e a"
  proof -
    have "retryGenerateInsight e (prompt_for e a) 3 = (Inl persistent_overload_error, backoff_events p 0 3)"
      using res that by simp
    from post_route_generation_failed [OF that(2,3) this]
    show ?thesis
      by (simp add: status gen_calls_append gen_calls_backoff gen_calls_Nil gen_calls_Cons)
  qed
  show ?thesis
    using res status route by (simp add: gen_calls_backoff isRetryFailure_persistent)
qed

theorem persistent_overload_gives_503_witness:
  "api_key_set (ex_env (always_failing err_503) (ex_user ''Professor'' (JStr ''s1'')))
   \<and> fails_overloaded (ex_env (always_failing err_503) (ex_user ''Professor'' (JStr ''s1''))) 2
         (prompt_for (ex_env (always_failing err_503) (ex_user ''Professor'' (JStr ''s1''))) ex_aluno)
   \<and> res_status (fst (post_route (ex_env (always_failing err_503) (ex_user ''Professor'' (JStr ''s1'')))
         ex_req ex_world)) = 503
   \<and> gen_calls (trace (snd (post_route (ex_env (always_failing err_503) (ex_user ''Professor'' (JStr ''s1'')))
         ex_req ex_world))) = 3
   \<and> insights (snd (post_route (ex_env (always_failing err_503) (ex_user ''Professor'' (JStr ''s1'')))
         ex_req ex_world)) = []"
proof -
  let ?u = "ex_user ''Professor'' (JStr ''s1'')"
  let ?e = "ex_env (always_failing err_503) ?u"
  have w0: "gen_calls (trace ex_world) = 0" "insights ex_world = []"
    by (simp_all add: ex_world_def gen_calls_Nil)
  from persistent_overload_gives_503 [of ?e 3 "prompt_for ?e ex_aluno" ex_req ex_world ?u ex_aluno]
       ex_key [of "always_failing err_503" ?u] ex_always_overloaded [of ?u]
       ex_loads [of "always_failing err_503" ?u] ex_same_school [of "''Professor''"] w0
  show ?thesis by simp
qed

text \<open>
  What the code does when the first call fails without the overload status:
  \<open>retryGenerateInsight\<close> makes that one call, waits for nothing and rethrows the same
  error. The \<open>catch\<close> block of the route then looks at the message of the error only:
  it answers with status 500 when the message does not contain the text
  \<open>Sobrecarga persistente\<close>, as for the error \<open>err_400\<close> below.
\<close>

lemma fatal_failure_single_call:
  assumes "api_key_set e"
      and "0 < maxRetries"
      and "generateContent e 0 p = Inl err"
      and "\<not> overload_signal err"
  shows "retryGenerateInsight e p maxRetries = (Inl err, [EvGenerate p])
       \<and> gen_calls (snd (retryGenerateInsight e p maxRetries)) = 1
       \<and> delays_of (snd (retryGenerateInsight e p maxRetries)) = []
       \<and> (\<not> isRetryFailure err \<longrightarrow> res_status (post_catch err) = 500)
       \<and> (\<not> isRetryFailure err \<and> maxRetries = 3 \<and> loads_aluno e req w u a \<and> \<not> forbidden u a
            \<and> p = prompt_for e a
            \<longrightarrow> res_status (fst (post_route e req w)) = 500
              \<and> gen_calls (trace (snd (post_route e req w))) = gen_calls (trace w) + 1
              \<and> insights (snd (post_route e req w)) = insights w)"
proof -
  have res: "retryGenerateInsight e p maxRetries = (Inl err, [EvGenerate p])"
    using retry_loop_fatal [OF assms(2,3,4)] by (simp add: retry_with_key [OF assms(1)])
  have status: "res_status (post_catch err) = 500" if "\<not> isRetryFailure err"
    using that by (simp add: post_catch_def)
  have route: "res_status (fst (post_route e req w)) = 500
              \<and> gen_calls (trace (snd (post_route e req w))) = gen_calls (trace w) + 1
              \<and> insights (snd (post_route e req w)) = insights w"
    if "\<not> isRetryFailure err" "maxRetries = 3" "loads_aluno e req w u a" "\<not> forbidden u a"
       "p = prompt_for e a"
  proof -
    have "retryGenerateInsight e (prompt_for e a) 3 = (Inl err, [EvGenerate p])"
      using res that by simp
    from post_route_generation_failed [OF that(3,4) this]
    show ?thesis
      by (simp add: status [OF that(1)] gen_calls_append gen_calls_Nil gen_calls_Cons)
  qed
  show ?thesis
    using res status route by (simp add: gen_calls_Nil gen_calls_Cons)
qed

lemma fatal_failure_single_call_example:
  "api_key_set (ex_env (always_failing err_400) (ex_user ''Professor'' (JStr ''s1'')))
   \<and> \<not> overload_signal err_400
   \<and> \<not> isRetryFailure err_400
   \<and> retryGenerateInsight (ex_env (always_failing err_400) (ex_user ''Professor'' (JStr ''s1'')))
        (prompt_for (ex_env (always_failing err_400) (ex_user ''Professor'' (JStr ''s1''))) ex_aluno) 3
       = (Inl err_400,
          [EvGenerate (prompt_for (ex_env (always_failing err_400) (ex_user ''Professor'' (JStr ''s1''))) ex_aluno)])
   \<and> res_status (fst (post_route (ex_env (always_failing err_400) (ex_user ''Professor'' (JStr ''s1'')))
         ex_req ex_world)) = 500
   \<and> gen_calls (trace (snd (post_route (ex_env (always_failing err_400) (ex_user ''Professor'' (JStr ''s1'')))
         ex_req ex_world))) = 1"
proof -
  let ?u = "ex_user ''Professor'' (JStr ''s1'')"
  let ?e = "ex_env (always_failing err_400) ?u"
  have fails: "generateContent ?e 0 (prompt_for ?e ex_aluno) = Inl err_400"
    by (simp add: ex_env_def always_failing_def)
  have sig: "\<not> overload_signal err_400"
    by (simp add: overload_signal_def err_400_def js_or_def)
  have kind: "\<not> isRetryFailure err_400"
    by (simp add: isRetryFailure_def err_400_def)
  from fatal_failure_single_call [of ?e 3 "prompt_for ?e ex_aluno" err_400 ex_req ex_world ?u ex_aluno]
       ex_key [of "always_failing err_400" ?u] fails sig kind
       ex_loads [of "always_failing err_400" ?u] ex_same_school [of "''Professor''"] ex_world_empty
  show ?thesis by (simp add: gen_calls_Nil)
qed

text \<open>
  Claim C3. A failure of the model without the overload status is to end the request after
  exactly one call and no retry, as a generation failure answered with status 500. The
  wrapper does its part, and line 73 logs the error as not recoverable. The route does
  not: the test of line 212, written to single out the error thrown at line 84, matches
  any message that contains \<open>Sobrecarga persistente\<close>. For a model error with status
  400 and such a message the request makes one call and is answered with 503 and the
  overload text, exactly as a persistent overload is, while the same failure with another
  message is answered with 500.
\<close>

theorem marked_failure_answered_as_overload:
  "generateContent (ex_env (always_failing err_marked) (ex_user ''Professor'' (JStr ''s1''))) 0
       (prompt_for (ex_env (always_failing err_marked) (ex_user ''Professor'' (JStr ''s1''))) ex_aluno)
     = Inl err_marked
   \<and> \<not> overload_signal err_marked
   \<and> loads_aluno (ex_env (always_failing err_marked) (ex_user ''Professor'' (JStr ''s1'')))
        ex_req ex_world (ex_user ''Professor'' (JStr ''s1'')) ex_aluno
   \<and> retryGenerateInsight (ex_env (always_failing err_marked) (ex_user ''Professor'' (JStr ''s1'')))
        (prompt_for (ex_env (always_failing err_marked) (ex_user ''Professor'' (JStr ''s1''))) ex_aluno) 3
       = (Inl err_marked,
          [EvGenerate (prompt_for (ex_env (always_failing err_marked) (ex_user ''Professor'' (JStr ''s1'')))
             ex_aluno)])
   \<and> gen_calls (trace (snd (post_route (ex_env (always_failing err_marked) (ex_user ''Professor'' (JStr ''s1'')))
         ex_req ex_world))) = 1
   \<and> res_status (fst (post_route (ex_env (always_failing err_marked) (ex_user ''Professor'' (JStr ''s1'')))
         ex_req ex_world)) = 503
   \<and> fst (post_route (ex_env (always_failing err_marked) (ex_user ''Professor'' (JStr ''s1'')))
         ex_req ex_world) = post_catch persistent_overload_error
   \<and> res_status (fst (post_route (ex_env (always_failing err_400) (ex_user ''Professor'' (JStr ''s1'')))
         ex_req ex_world)) = 500"
proof -
  let ?u = "ex_user ''Professor'' (JStr ''s1'')"
  let ?e = "ex_env (always_failing err_marked) ?u"
  let ?p = "prompt_for ?e ex_aluno"
  have fails: "generateContent ?e 0 ?p = Inl err_marked"
    by (simp add: ex_env_def always_failing_def)
  have sig: "\<not> overload_signal err_marked"
    by (simp add: overload_signal_def err_marked_def js_or_def)
  have kind: "isRetryFailure err_marked"
    by (simp add: isRetryFailure_def err_marked_def)
  have "retry_loop ?e ?p 3 0 = (Inl err_marked, [EvGenerate ?p])"
    using fails sig by (intro retry_loop_fatal) simp_all
  then have res: "retryGenerateInsight ?e ?p 3 = (Inl err_marked, [EvGenerate ?p])"
    by (simp add: retry_with_key [OF ex_key])
  have route: "post_route ?e ex_req ex_world
                 = (post_catch err_marked,
                    ex_world\<lparr>trace := trace ex_world
                      @ EvFindUnique (param_alunoId ex_req) # [EvGenerate ?p] @ [EvDisconnect]\<rparr>)"
    by (rule post_route_generation_failed [OF ex_loads ex_same_school res])
  have same: "post_catch err_marked = post_catch persistent_overload_error"
    by (simp add: post_catch_def kind isRetryFailure_persistent)
  have calls: "gen_calls (trace (snd (post_route ?e ex_req ex_world))) = 1"
    by (simp add: route ex_world_empty gen_calls_Nil gen_calls_Cons)
  have status: "res_status (fst (post_route ?e ex_req ex_world)) = 503"
    by (simp add: route post_catch_def kind)
  have answer: "fst (post_route ?e ex_req ex_world) = post_catch persistent_overload_error"
    by (simp add: route same)
  have sibling: "res_status (fst (post_route (ex_env (always_failing err_400) ?u) ex_req ex_world)) = 500"
    using fatal_failure_single_call_example by simp
  show ?thesis
    using fails sig ex_loads [of "always_failing err_marked" ?u] res calls status answer sibling
    by blast
qed

text \<open>
  Claim C9. Whenever the attempts up to attempt \<open>j\<close> all fail with the overload status,
  the call of attempt \<open>j\<close> is followed by a wait of \<open>2 ^ j\<close> seconds, also when
  \<open>j\<close> is the last attempt allowed: then the wrapper's events end with the wait of
  \<open>2 ^ (maxRetries - 1)\<close> seconds, after the last call, and the persistent-overload
  error is thrown only after it.
\<close>

theorem backoff_awaited_after_every_overload:
  assumes "api_key_set e"
      and "j < maxRetries"
      and "\<forall>i\<le>j. fails_overloaded e i p"
  shows "take (2 * Suc j) (snd (retryGenerateInsight e p maxRetries)) = backoff_events p 0 (Suc j)
       \<and> snd (retryGenerateInsight e p maxRetries) ! (2 * j) = EvGenerate p
       \<and> snd (retryGenerateInsight e p maxRetries) ! (2 * j + 1) = EvDelay (2 ^ j * 1000)
       \<and> (Suc j = maxRetries \<longrightarrow>
             retryGenerateInsight e p maxRetries
               = (Inl persistent_overload_error, backoff_events p 0 maxRetries)
             \<and> last (snd (retryGenerateInsight e p maxRetries)) = EvDelay (2 ^ (maxRetries - 1) * 1000))"
proof -
  let ?evs = "snd (retryGenerateInsight e p maxRetries)"
  let ?rest = "snd (retry_loop e p maxRetries (0 + Suc j))"
  have run: "retry_loop e p maxRetries 0 =
               (fst (retry_loop e p maxRetries (0 + Suc j)), backoff_events p 0 (Suc j) @ ?rest)"
    using assms(2,3) by (intro retry_loop_overloaded_run) auto
  have evs: "?evs = backoff_events p 0 (Suc j) @ ?rest"
    using run by (simp add: retry_with_key [OF assms(1)])
  have pre: "take (2 * Suc j) ?evs = backoff_events p 0 (Suc j)"
    by (simp add: evs length_backoff)
  have shape: "backoff_events p 0 (Suc j) = backoff_events p 0 j @ [EvGenerate p, EvDelay (2 ^ j * 1000)]"
    by (simp add: backoff_events_snoc)
  have call: "?evs ! (2 * j) = EvGenerate p"
    by (simp add: evs shape nth_append length_backoff)
  have wait: "?evs ! (2 * j + 1) = EvDelay (2 ^ j * 1000)"
    by (simp add: evs shape nth_append length_backoff)
  have final: "retryGenerateInsight e p maxRetries
                 = (Inl persistent_overload_error, backoff_events p 0 maxRetries)
               \<and> last ?evs = EvDelay (2 ^ (maxRetries - 1) * 1000)"
    if "Suc j = maxRetries"
  proof -
    have "retry_loop e p maxRetries 0 = (Inl persistent_overload_error, backoff_events p 0 (Suc j))"
      using run that by (simp add: retry_loop_exhausted)
    then have "retryGenerateInsight e p maxRetries
                 = (Inl persistent_overload_error, backoff_events p 0 (Suc j))"
      by (simp add: retry_with_key [OF assms(1)])
    then show ?thesis
      using that by (auto simp: shape)
  qed
  show ?thesis
    using pre call wait final by blast
qed

theorem backoff_awaited_after_every_overload_witness:
  "api_key_set (ex_env (always_failing err_503) (ex_user ''Professor'' (JStr ''s1'')))
   \<and> fails_overloaded (ex_env (always_failing err_503) (ex_user ''Professor'' (JStr ''s1''))) 2 ''p''
   \<and> retryGenerateInsight (ex_env (always_failing err_503) (ex_user ''Professor'' (JStr ''s1''))) ''p'' 3
       = (Inl persistent_overload_error,
          [EvGenerate ''p'', EvDelay 1000, EvGenerate ''p'', EvDelay 2000, EvGenerate ''p'', EvDelay 4000])
   \<and> last (snd (retryGenerateInsight
         (ex_env (always_failing err_503) (ex_user ''Professor'' (JStr ''s1''))) ''p'' 3)) = EvDelay 4000"
proof -
  let ?u = "ex_user ''Professor'' (JStr ''s1'')"
  let ?e = "ex_env (always_failing err_503) ?u"
  have ev: "backoff_events ''p'' 0 3
              = [EvGenerate ''p'', EvDelay 1000, EvGenerate ''p'', EvDelay 2000, EvGenerate ''p'', EvDelay 4000]"
    by (simp add: backoff_events_def upt_rec [of 0] upt_rec [of 1] upt_rec [of 2] numeral_3_eq_3)
  from backoff_awaited_after_every_overload [of ?e 2 3 "''p''"]
       ex_key [of "always_failing err_503" ?u] ex_always_overloaded [of ?u] ev
  show ?thesis by simp
qed

subsection \<open>Authorization\<close>

text \<open>
  Claim C4, amended. For a POST request with a valid token whose student exists, when the
  caller's school id differs from the student's and the caller's access level is not
  \<open>Administrador\<close> (the word the source compares with), the answer is the 403
  response of line 178, no insight is stored and the model is never called: the only
  effects are the lookup and the disconnect.
\<close>

theorem other_school_without_administrador_forbidden:
  assumes "loads_aluno e req w u a"
      and "user_escolaId u \<noteq> JStr (aluno_escolaId a)"
      and "acesso u \<noteq> ''Administrador''"
  shows "fst (post_route e req w) = forbidden_response
       \<and> res_status (fst (post_route e req w)) = 403
       \<and> insights (snd (post_route e req w)) = insights w
       \<and> gen_calls (trace (snd (post_route e req w))) = gen_calls (trace w)
       \<and> trace (snd (post_route e req w))
           = trace w @ [EvFindUnique (param_alunoId req), EvDisconnect]"
proof -
  have "forbidden u a"
    using assms(2,3) by (simp add: forbidden_def)
  from post_route_forbidden [OF assms(1) this]
  show ?thesis
    by (simp add: forbidden_response_def gen_calls_append gen_calls_Nil gen_calls_Cons)
qed

theorem other_school_without_administrador_forbidden_witness:
  "loads_aluno (ex_env (overloaded_until 0) (ex_user ''Professor'' (JStr ''s2''))) ex_req ex_world
     (ex_user ''Professor'' (JStr ''s2'')) ex_aluno
   \<and> user_escolaId (ex_user ''Professor'' (JStr ''s2'')) \<noteq> JStr (aluno_escolaId ex_aluno)
   \<and> acesso (ex_user ''Professor'' (JStr ''s2'')) \<noteq> ''Administrador''
   \<and> res_status (fst (post_route (ex_env (overloaded_until 0) (ex_user ''Professor'' (JStr ''s2'')))
         ex_req ex_world)) = 403
   \<and> insights (snd (post_route (ex_env (overloaded_until 0) (ex_user ''Professor'' (JStr ''s2'')))
         ex_req ex_world)) = []
   \<and> trace (snd (post_route (ex_env (overloaded_until 0) (ex_user ''Professor'' (JStr ''s2'')))
         ex_req ex_world)) = [EvFindUnique ''a1'', EvDisconnect]"
proof -
  let ?u = "ex_user ''Professor'' (JStr ''s2'')"
  let ?e = "ex_env (overloaded_until 0) ?u"
  have role: "acesso ?u \<noteq> ''Administrador''"
    by (simp add: ex_user_def)
  have id: "param_alunoId ex_req = ''a1''"
    by (simp add: ex_req_def)
  from other_school_without_administrador_forbidden [of ?e ex_req ex_world ?u ex_aluno]
       ex_loads [of "overloaded_until 0" ?u] ex_other_school [of "''Professor''"] role
       ex_world_empty id
  show ?thesis by (simp add: forbidden_response_def)
qed

text \<open>
  With the word \<open>Administrator\<close> the statement fails: a caller of another school
  whose access level is \<open>Administrador\<close>, which is not \<open>Administrator\<close>, is let
  through; the model is called and an insight is stored.
\<close>

theorem administrador_other_school_counterexample:
  "acesso (ex_user ''Administrador'' (JStr ''s2'')) \<noteq> ''Administrator''
   \<and> user_escolaId (ex_user ''Administrador'' (JStr ''s2'')) \<noteq> JStr (aluno_escolaId ex_aluno)
   \<and> loads_aluno (ex_env (overloaded_until 0) (ex_user ''Administrador'' (JStr ''s2''))) ex_req ex_world
        (ex_user ''Administrador'' (JStr ''s2'')) ex_aluno
   \<and> res_status (fst (post_route (ex_env (overloaded_until 0) (ex_user ''Administrador'' (JStr ''s2'')))
         ex_req ex_world)) = 200
   \<and> length (insights (snd (post_route (ex_env (overloaded_until 0) (ex_user ''Administrador'' (JStr ''s2'')))
         ex_req ex_world))) = 1
   \<and> gen_calls (trace (snd (post_route (ex_env (overloaded_until 0) (ex_user ''Administrador'' (JStr ''s2'')))
         ex_req ex_world))) = 1"
proof -
  let ?u = "ex_user ''Administrador'' (JStr ''s2'')"
  let ?e = "ex_env (overloaded_until 0) ?u"
  have role: "acesso ?u \<noteq> ''Administrator''"
    by (simp add: ex_user_def)
  have allowed: "\<not> forbidden ?u ex_aluno"
    by (simp add: forbidden_def ex_user_def)
  from post_route_generated [OF ex_loads allowed ex_generated]
  show ?thesis
    using role ex_other_school [of "''Administrador''"] ex_loads [of "overloaded_until 0" ?u]
    by (simp add: ex_no_write_failure created_response_def ex_world_empty
                  gen_calls_Nil gen_calls_Cons)
qed

text \<open>
  Claim C5, amended. A caller whose access level is \<open>Administrador\<close> passes the guard
  of line 177 whatever the two school ids are: a request of such a caller that loads its
  student is not answered with 403 and goes on to \<open>retryGenerateInsight\<close>.
\<close>

theorem administrador_is_authorized:
  assumes "acesso u = ''Administrador''"
  shows "\<not> forbidden u a
       \<and> (loads_aluno e req w u a \<longrightarrow>
            fst (post_route e req w) \<noteq> forbidden_response
            \<and> res_status (fst (post_route e req w)) \<noteq> 403
            \<and> (\<exists>rest. trace (snd (post_route e req w))
                  = trace w @ EvFindUnique (param_alunoId req)
                      # snd (retryGenerateInsight e (prompt_for e a) 3) @ rest))"
proof -
  have allowed: "\<not> forbidden u a"
    using assms by (simp add: forbidden_def)
  have route: "fst (post_route e req w) \<noteq> forbidden_response
            \<and> res_status (fst (post_route e req w)) \<noteq> 403
            \<and> (\<exists>rest. trace (snd (post_route e req w))
                  = trace w @ EvFindUnique (param_alunoId req)
                      # snd (retryGenerateInsight e (prompt_for e a) 3) @ rest)"
    if loads: "loads_aluno e req w u a"
  proof (cases "retryGenerateInsight e (prompt_for e a) 3")
    case (Pair r evs)
    show ?thesis
    proof (cases r)
      case (Inl err)
      from post_route_generation_failed [OF loads allowed Pair [unfolded Inl]]
      show ?thesis
        by (auto simp: Pair post_catch_def forbidden_response_def)
    next
      case (Inr reply)
      from post_route_generated [OF loads allowed Pair [unfolded Inr]]
      show ?thesis
        by (auto simp: Pair post_catch_def forbidden_response_def created_response_def
                 split: option.splits)
    qed
  qed
  show ?thesis
    using allowed route by blast
qed

theorem administrador_is_authorized_witness:
  "acesso (ex_user ''Administrador'' (JStr ''s2'')) = ''Administrador''
   \<and> user_escolaId (ex_user ''Administrador'' (JStr ''s2'')) \<noteq> JStr (aluno_escolaId ex_aluno)
   \<and> loads_aluno (ex_env (overloaded_until 0) (ex_user ''Administrador'' (JStr ''s2''))) ex_req ex_world
        (ex_user ''Administrador'' (JStr ''s2'')) ex_aluno
   \<and> \<not> forbidden (ex_user ''Administrador'' (JStr ''s2'')) ex_aluno
   \<and> res_status (fst (post_route (ex_env (overloaded_until 0) (ex_user ''Administrador'' (JStr ''s2'')))
         ex_req ex_world)) \<noteq> 403"
proof -
  let ?u = "ex_user ''Administrador'' (JStr ''s2'')"
  let ?e = "ex_env (overloaded_until 0) ?u"
  have role: "acesso ?u = ''Administrador''"
    by (simp add: ex_user_def)
  from administrador_is_authorized [OF role, of ex_aluno ?e ex_req ex_world]
       role ex_other_school [of "''Administrador''"] ex_loads [of "overloaded_until 0" ?u]
  show ?thesis by simp
qed

text \<open>
  With the word \<open>Administrator\<close> the statement fails: a caller of another school
  with exactly that access level is refused with 403.
\<close>

theorem administrator_other_school_counterexample:
  "acesso (ex_user ''Administrator'' (JStr ''s2'')) = ''Administrator''
   \<and> loads_aluno (ex_env (overloaded_until 0) (ex_user ''Administrator'' (JStr ''s2''))) ex_req ex_world
        (ex_user ''Administrator'' (JStr ''s2'')) ex_aluno
   \<and> forbidden (ex_user ''Administrator'' (JStr ''s2'')) ex_aluno
   \<and> fst (post_route (ex_env (overloaded_until 0) (ex_user ''Administrator'' (JStr ''s2'')))
         ex_req ex_world) = forbidden_response
   \<and> res_status (fst (post_route (ex_env (overloaded_until 0) (ex_user ''Administrator'' (JStr ''s2'')))
         ex_req ex_world)) = 403"
proof -
  let ?u = "ex_user ''Administrator'' (JStr ''s2'')"
  let ?e = "ex_env (overloaded_until 0) ?u"
  have role: "acesso ?u = ''Administrator''"
    by (simp add: ex_user_def)
  have refused: "forbidden ?u ex_aluno"
    using ex_other_school [of "''Administrator''"] by (simp add: forbidden_def ex_user_def)
  from post_route_forbidden [OF ex_loads refused]
  show ?thesis
    using role refused ex_loads [of "overloaded_until 0" ?u]
    by (simp add: forbidden_response_def)
qed

subsection \<open>A token without a school id\<close>

text \<open>
  Claim C10. When the verified payload has no \<open>escolaId\<close> field (the value read is
  \<open>undefined\<close>) and the access level is not \<open>Administrador\<close>, a POST request is
  answered with 403 for every student that exists: \<open>undefined\<close> is never strictly
  equal to the student's school id.
\<close>

theorem token_without_school_forbidden:
  assumes "loads_aluno e req w u a"
      and "user_escolaId u = JUndefined"
      and "acesso u \<noteq> ''Administrador''"
  shows "fst (post_route e req w) = forbidden_response
       \<and> res_status (fst (post_route e req w)) = 403
       \<and> insights (snd (post_route e req w)) = insights w"
proof -
  have "forbidden u a"
    using assms(2,3) by (simp add: forbidden_def)
  from post_route_forbidden [OF assms(1) this]
  show ?thesis
    by (simp add: forbidden_response_def)
qed

theorem token_without_school_forbidden_witness:
  "loads_aluno (ex_env (overloaded_until 0) (ex_user ''Professor'' JUndefined)) ex_req ex_world
     (ex_user ''Professor'' JUndefined) ex_aluno
   \<and> user_escolaId (ex_user ''Professor'' JUndefined) = JUndefined
   \<and> acesso (ex_user ''Professor'' JUndefined) \<noteq> ''Administrador''
   \<and> res_status (fst (post_route (ex_env (overloaded_until 0) (ex_user ''Professor'' JUndefined))
         ex_req ex_world)) = 403"
proof -
  let ?u = "ex_user ''Professor'' JUndefined"
  let ?e = "ex_env (overloaded_until 0) ?u"
  have payload: "user_escolaId ?u = JUndefined" "acesso ?u \<noteq> ''Administrador''"
    by (simp_all add: ex_user_def)
  from token_without_school_forbidden [OF ex_loads payload, of "overloaded_until 0"]
  show ?thesis
    using ex_loads [of "overloaded_until 0" ?u] payload by (simp add: forbidden_response_def)
qed

subsection \<open>Stored insights\<close>

text \<open>
  Claim C6. A POST request appends at most one insight to the stored ones, and an insight
  it appends carries the id and the school id of the student that the request loaded, a
  row of the database that the request leaves as it is; a GET request stores nothing. So no operation
  creates an insight whose school differs from its student's.
\<close>

theorem created_insight_has_school_of_aluno:
  "(\<exists>new. insights (snd (post_route e req w)) = insights w @ new
          \<and> length new \<le> 1
          \<and> (\<forall>i\<in>set new. \<exists>a. findUnique w (param_alunoId req) = Some a
                  \<and> a \<in> set (alunos w)
                  \<and> insight_alunoId i = aluno_id a
                  \<and> insight_escolaId i = aluno_escolaId a))
   \<and> alunos (snd (post_route e req w)) = alunos w
   \<and> insights (snd (get_route e req w)) = insights w"
proof -
  have "\<exists>new. insights (snd (post_route e req w)) = insights w @ new
          \<and> length new \<le> 1
          \<and> (\<forall>i\<in>set new. \<exists>a. findUnique w (param_alunoId req) = Some a
                  \<and> a \<in> set (alunos w)
                  \<and> insight_alunoId i = aluno_id a
                  \<and> insight_escolaId i = aluno_escolaId a)"
    using post_route_insights [of e req w]
  proof
    assume "insights (snd (post_route e req w)) = insights w"
    then show ?thesis by (intro exI [of _ "[]"]) simp
  next
    assume "\<exists>u a reply. loads_aluno e req w u a \<and> \<not> forbidden u a
         \<and> fst (retryGenerateInsight e (prompt_for e a) 3) = Inr reply
         \<and> insights (snd (post_route e req w))
             = insights w @ [new_insight e a (build_jsonInput a) reply]"
    then obtain u a reply where
      found: "findUnique w (param_alunoId req) = Some a" and
      grown: "insights (snd (post_route e req w))
                = insights w @ [new_insight e a (build_jsonInput a) reply]"
      by (auto simp: loads_aluno_def)
    have "a \<in> set (alunos w)"
      using found by (auto simp: findUnique_def find_Some_iff)
    then show ?thesis
      using found grown
      by (intro exI [of _ "[new_insight e a (build_jsonInput a) reply]"])
         (simp add: new_insight_def)
  qed
  then show ?thesis
    using get_route_rows [of e req w] post_route_alunos [of e req w] by blast
qed

theorem created_insight_has_school_of_aluno_witness:
  "insights (snd (post_route (ex_env (overloaded_until 0) (ex_user ''Professor'' (JStr ''s1'')))
       ex_req ex_world))
     = [new_insight (ex_env (overloaded_until 0) (ex_user ''Professor'' (JStr ''s1''))) ex_aluno
          (build_jsonInput ex_aluno) ''texto'']
   \<and> findUnique ex_world (param_alunoId ex_req) = Some ex_aluno
   \<and> insight_escolaId (new_insight (ex_env (overloaded_until 0) (ex_user ''Professor'' (JStr ''s1'')))
         ex_aluno (build_jsonInput ex_aluno) ''texto'') = aluno_escolaId ex_aluno"
proof -
  let ?u = "ex_user ''Professor'' (JStr ''s1'')"
  let ?e = "ex_env (overloaded_until 0) ?u"
  let ?i = "new_insight ?e ex_aluno (build_jsonInput ex_aluno) ''texto''"
  have grown: "insights (snd (post_route ?e ex_req ex_world)) = [?i]"
    using post_route_generated [OF ex_loads ex_same_school ex_generated]
    by (simp add: ex_no_write_failure ex_world_empty)
  have found: "findUnique ex_world (param_alunoId ex_req) = Some ex_aluno"
    using ex_loads [of "overloaded_until 0" ?u] by (simp add: loads_aluno_def)
  from created_insight_has_school_of_aluno [of ?e ex_req ex_world] grown found
  show ?thesis
    by (auto simp: ex_world_empty)
qed

text \<open>
  Claim C7. When \<open>retryGenerateInsight\<close> fails for the student of a POST request,
  with whatever error, the stored insights are unchanged and no insert is attempted: the
  insert of line 198 comes after the wrapper has returned a text.
\<close>

theorem failed_generation_creates_no_insight:
  assumes "authenticateToken e req = Inr u"
      and "findUnique w (param_alunoId req) = Some a"
      and "fst (retryGenerateInsight e (prompt_for e a) 3) = Inl err"
  shows "insights (snd (post_route e req w)) = insights w
       \<and> filter is_create (trace (snd (post_route e req w))) = filter is_create (trace w)"
proof -
  obtain evs where res: "retryGenerateInsight e (prompt_for e a) 3 = (Inl err, evs)"
    using assms(3) by (cases "retryGenerateInsight e (prompt_for e a) 3") simp
  have quiet: "filter is_create evs = []"
    using retry_no_create [of e "prompt_for e a" 3] by (simp add: res)
  show ?thesis
    using assms(1,2) res quiet
    by (auto simp: post_route_def post_handler_def post_try_def prompt_for_def Let_def
             split: option.splits)
qed

theorem failed_generation_creates_no_insight_witness:
  "authenticateToken (ex_env (always_failing err_503) (ex_user ''Professor'' (JStr ''s1''))) ex_req
     = Inr (ex_user ''Professor'' (JStr ''s1''))
   \<and> findUnique ex_world (param_alunoId ex_req) = Some ex_aluno
   \<and> fst (retryGenerateInsight (ex_env (always_failing err_503) (ex_user ''Professor'' (JStr ''s1'')))
        (prompt_for (ex_env (always_failing err_503) (ex_user ''Professor'' (JStr ''s1''))) ex_aluno) 3)
       = Inl persistent_overload_error
   \<and> insights (snd (post_route (ex_env (always_failing err_503) (ex_user ''Professor'' (JStr ''s1'')))
         ex_req ex_world)) = []
   \<and> filter is_create (trace (snd (post_route
         (ex_env (always_failing err_503) (ex_user ''Professor'' (JStr ''s1''))) ex_req ex_world))) = []"
proof -
  let ?u = "ex_user ''Professor'' (JStr ''s1'')"
  let ?e = "ex_env (always_failing err_503) ?u"
  have found: "findUnique ex_world (param_alunoId ex_req) = Some ex_aluno"
    using ex_loads [of "always_failing err_503" ?u] by (simp add: loads_aluno_def)
  have "retry_loop ?e (prompt_for ?e ex_aluno) 3 0
          = (fst (retry_loop ?e (prompt_for ?e ex_aluno) 3 (0 + 3)),
             backoff_events (prompt_for ?e ex_aluno) 0 3
               @ snd (retry_loop ?e (prompt_for ?e ex_aluno) 3 (0 + 3)))"
    by (intro retry_loop_overloaded_run) (simp_all add: ex_always_overloaded)
  then have failed: "fst (retryGenerateInsight ?e (prompt_for ?e ex_aluno) 3) = Inl persistent_overload_error"
    by (simp add: retry_with_key [OF ex_key] retry_loop_exhausted)
  from failed_generation_creates_no_insight [OF ex_auth found failed]
  show ?thesis
    using ex_auth [of "always_failing err_503" ?u] found failed
    by (simp add: ex_world_empty)
qed

subsection \<open>Release of the database connection\<close>

text \<open>
  Claim C8, amended. Once a request has passed the middleware and the check of the
  student id, and so enters the \<open>try\<close> block, both routes disconnect from the database
  exactly once, as their last effect, whatever the outcome (found or not, refused,
  generation or database failure, success).
\<close>

theorem storage_released_past_id_check:
  assumes "authenticateToken e req = Inr u"
      and "param_alunoId req \<noteq> []"
  shows "(\<exists>evs. trace (snd (post_route e req w)) = trace w @ evs @ [EvDisconnect]
                \<and> EvDisconnect \<notin> set evs)
       \<and> (\<exists>evs. trace (snd (get_route e req w)) = trace w @ evs @ [EvDisconnect]
                \<and> EvDisconnect \<notin> set evs)"
proof -
  have quiet: "EvDisconnect \<notin> set evs" if "retryGenerateInsight e p 3 = (r, evs)" for p r evs
    using retry_no_disconnect [of e p 3] that by simp
  have post: "\<exists>evs. trace (snd (post_route e req w)) = trace w @ evs @ [EvDisconnect]
                \<and> EvDisconnect \<notin> set evs"
    using assms
    by (auto simp: post_route_def post_handler_def post_try_def Let_def
             split: option.splits prod.splits sum.splits dest: quiet)
  have get: "\<exists>evs. trace (snd (get_route e req w)) = trace w @ evs @ [EvDisconnect]
                \<and> EvDisconnect \<notin> set evs"
    using assms
    by (intro exI [of _ "[EvFindMany (param_alunoId req)]"])
       (simp add: get_route_def get_handler_def Let_def)
  show ?thesis
    using post get by blast
qed

theorem storage_released_past_id_check_witness:
  "authenticateToken (ex_env (overloaded_until 0) (ex_user ''Professor'' (JStr ''s1''))) ex_req
     = Inr (ex_user ''Professor'' (JStr ''s1''))
   \<and> param_alunoId ex_req \<noteq> []
   \<and> last (trace (snd (post_route (ex_env (overloaded_until 0) (ex_user ''Professor'' (JStr ''s1'')))
        ex_req ex_world))) = EvDisconnect
   \<and> last (trace (snd (get_route (ex_env (overloaded_until 0) (ex_user ''Professor'' (JStr ''s1'')))
        ex_req ex_world))) = EvDisconnect"
proof -
  let ?u = "ex_user ''Professor'' (JStr ''s1'')"
  let ?e = "ex_env (overloaded_until 0) ?u"
  have id: "param_alunoId ex_req \<noteq> []"
    by (simp add: ex_req_def)
  from storage_released_past_id_check [OF ex_auth id, of "overloaded_until 0" ?u ex_world]
  show ?thesis
    using ex_auth [of "overloaded_until 0" ?u] id by (auto simp: ex_world_empty)
qed

text \<open>
  The release is not unconditional: the \<open>finally\<close> blocks cover the \<open>try\<close> blocks
  only. A request without a token is answered with 401 by the middleware, on both
  routes, and nothing is disconnected.
\<close>

theorem no_token_no_release_counterexample:
  "res_status (fst (post_route (ex_env (overloaded_until 0) (ex_user ''Professor'' (JStr ''s1'')))
       ex_req_no_token ex_world)) = 401
   \<and> trace (snd (post_route (ex_env (overloaded_until 0) (ex_user ''Professor'' (JStr ''s1'')))
       ex_req_no_token ex_world)) = []
   \<and> res_status (fst (get_route (ex_env (overloaded_until 0) (ex_user ''Professor'' (JStr ''s1'')))
       ex_req_no_token ex_world)) = 401
   \<and> trace (snd (get_route (ex_env (overloaded_until 0) (ex_user ''Professor'' (JStr ''s1'')))
       ex_req_no_token ex_world)) = []"
  by (simp add: post_route_def get_route_def authenticateToken_def ex_req_no_token_def
                no_token_response_def ex_world_def)

end
